theory Spec2Isabelle
  imports Complex_Main
begin

section \<open>The DNC memory module (scratch/layers/dnc/memory.py)\<close>

text \<open>
  Tensors are nested lists of reals: the floating-point numbers of the source are
  idealised as real numbers, and a tensor of shape (a, b, c) is a list of \<open>a\<close> matrices,
  each a list of \<open>b\<close> rows of length \<open>c\<close>. The state tensors carry the shapes that the
  docstrings of the class name: memory (B, N, W), temporal link (B, N, N), usage,
  allocation and precedence (B, 1, N), read weights (B, R, N). The constructor itself hands
  the size tuple to \<^verbatim>\<open>torch.Tensor\<close> as data for the memory and the temporal link, which
  leaves these two as one-dimensional tensors of three entries; a module in that condition
  is outside the record, and \<^verbatim>\<open>forward\<close> fails on it at the transposition of its first
  line. The record describes a module whose tensors have been given the documented shapes.

  The constructor registers the six tensors as parameters of the module. A module refuses
  to bind the name of a registered parameter to a plain tensor and raises a TypeError; an
  in-place update of a registered parameter is accepted. The field \<open>parameters\<close> lists the
  names that are registered: all six after construction, fewer once the caller has
  replaced attributes by plain tensors.
\<close>

type_synonym vec = "real list"
type_synonym mat = "real list list"
type_synonym tensor3 = "real list list list"

record state =
  memory_size :: "nat \<times> nat"
  num_read_heads :: nat
  batch_size :: nat
  memory :: tensor3
  temporal_link :: tensor3
  usage :: tensor3
  allocation :: tensor3
  precedence :: tensor3
  read_weights :: tensor3
  parameters :: "string list"

datatype error = TypeError

definition module_parameters :: "string list" where
  \<comment> \<open>the names registered by the constructor\<close>
  "module_parameters =
     [''memory'', ''temporal_link'', ''usage'', ''allocation'', ''precedence'', ''read_weights'']"

definition set_attribute :: "string \<Rightarrow> state \<Rightarrow> state \<Rightarrow> error + state" where
  \<comment> \<open>\<open>self.name = tensor\<close>, where \<open>s'\<close> is \<open>s\<close> with the field for \<open>name\<close> replaced\<close>
  "set_attribute name s s' = (if name \<in> set (parameters s) then Inl TypeError else Inr s')"

text \<open>
  The interface object is built outside this module; its fields are read with the shapes
  the methods' docstrings and the indexing in \<open>forward\<close> require: write key (B, W),
  write strength (B, 1), the two gates (B, 1, 1), erase and write vector (B, 1, W),
  read keys (B, R, W), read strength (B, R, 1), read modes (B, R, 3), free gates (B, R, 1).
\<close>

record interface =
  write_key :: mat
  write_strength :: mat
  allocation_gate :: tensor3
  write_gate :: tensor3
  erase_vector :: tensor3
  write_vector :: tensor3
  read_keys :: tensor3
  read_strength :: tensor3
  read_modes :: tensor3
  free_gates :: tensor3

subsection \<open>Tensor operations of the library\<close>

text \<open>
  Elementwise operations broadcast a dimension of size 1 against any size. Two sizes that
  differ and are both other than 1 are rejected by the library; the model returns the
  empty list there, and every general theorem below carries the shapes as a hypothesis.
\<close>

definition bcast :: "('a \<Rightarrow> 'b \<Rightarrow> 'c) \<Rightarrow> 'a list \<Rightarrow> 'b list \<Rightarrow> 'c list" where
  "bcast f xs ys =
     (if length xs = length ys then map2 f xs ys
      else if length xs = 1 then map (f (hd xs)) ys
      else if length ys = 1 then map (\<lambda>x. f x (hd ys)) xs
      else [])"

definition add3 :: "tensor3 \<Rightarrow> tensor3 \<Rightarrow> tensor3" where
  "add3 = bcast (bcast (bcast (+)))"

definition sub3 :: "tensor3 \<Rightarrow> tensor3 \<Rightarrow> tensor3" where
  "sub3 = bcast (bcast (bcast (-)))"

definition mul3 :: "tensor3 \<Rightarrow> tensor3 \<Rightarrow> tensor3" where
  "mul3 = bcast (bcast (bcast (*)))"

definition mul2 :: "mat \<Rightarrow> mat \<Rightarrow> mat" where
  "mul2 = bcast (bcast (*))"

definition rsub3 :: "real \<Rightarrow> tensor3 \<Rightarrow> tensor3" where
  \<comment> \<open>\<open>c - T\<close> for a Python scalar \<open>c\<close>\<close>
  "rsub3 c T = map (map (map (\<lambda>x. c - x))) T"

definition rsub2 :: "real \<Rightarrow> mat \<Rightarrow> mat" where
  "rsub2 c M = map (map (\<lambda>x. c - x)) M"

definition scale3 :: "real \<Rightarrow> tensor3 \<Rightarrow> tensor3" where
  \<comment> \<open>\<open>c * T\<close> for a zero-dimensional \<open>c\<close>\<close>
  "scale3 c T = map (map (map (\<lambda>x. c * x))) T"

definition sum3 :: "tensor3 \<Rightarrow> real" where
  \<comment> \<open>\<open>torch.sum(T)\<close> with no dimension: the sum of every entry of the tensor\<close>
  "sum3 T = sum_list (map (\<lambda>m. sum_list (map sum_list m)) T)"

definition dot :: "vec \<Rightarrow> vec \<Rightarrow> real" where
  "dot x y = sum_list (map2 (*) x y)"

definition matmul :: "mat \<Rightarrow> mat \<Rightarrow> mat" where
  "matmul a c = map (\<lambda>row. map (dot row) (transpose c)) a"

definition bmm :: "tensor3 \<Rightarrow> tensor3 \<Rightarrow> tensor3" where
  \<comment> \<open>\<open>torch.bmm\<close>: one matrix product per batch element\<close>
  "bmm a c = map2 matmul a c"

definition transpose12 :: "tensor3 \<Rightarrow> tensor3" where
  \<comment> \<open>\<open>torch.transpose(T, 1, 2)\<close>\<close>
  "transpose12 T = map transpose T"

definition repeat_dim1 :: "nat \<Rightarrow> tensor3 \<Rightarrow> tensor3" where
  \<comment> \<open>\<open>T.repeat(1, n, 1)\<close>\<close>
  "repeat_dim1 n T = map (\<lambda>m. concat (replicate n m)) T"

definition repeat_dim2 :: "nat \<Rightarrow> tensor3 \<Rightarrow> tensor3" where
  \<comment> \<open>\<open>T.repeat(1, 1, n)\<close>\<close>
  "repeat_dim2 n T = map (map (\<lambda>row. concat (replicate n row))) T"

definition select1 :: "nat \<Rightarrow> tensor3 \<Rightarrow> mat" where
  \<comment> \<open>\<open>T[:, i, :]\<close>\<close>
  "select1 i T = map (\<lambda>m. m ! i) T"

definition select2_unsqueeze :: "nat \<Rightarrow> tensor3 \<Rightarrow> tensor3" where
  \<comment> \<open>\<open>T[:, :, k].unsqueeze(dim=2)\<close>\<close>
  "select2_unsqueeze k T = map (map (\<lambda>row. [row ! k])) T"

definition ones3 :: "nat \<Rightarrow> nat \<Rightarrow> nat \<Rightarrow> tensor3" where
  "ones3 a b c = replicate a (replicate b (replicate c 1))"

definition softmax :: "vec \<Rightarrow> vec" where
  \<comment> \<open>\<open>functional.softmax(x, dim=0)\<close> on a one-dimensional tensor\<close>
  "softmax xs = map (\<lambda>x. exp x / sum_list (map exp xs)) xs"

definition softmax_dim0 :: "mat \<Rightarrow> mat" where
  \<comment> \<open>\<open>functional.softmax(M, dim=0)\<close> on a matrix: each column is normalised over the rows\<close>
  "softmax_dim0 M = transpose (map softmax (transpose M))"

definition eps :: real where
  "eps = 1 / 10 ^ 8"

definition norm2 :: "vec \<Rightarrow> real" where
  "norm2 x = sqrt (dot x x)"

definition cosine :: "vec \<Rightarrow> vec \<Rightarrow> real" where
  \<comment> \<open>the formula of the library's documentation; releases that bound each norm by \<open>eps\<close>
      separately differ from it only where a norm is below \<open>eps\<close>\<close>
  "cosine x y = dot x y / max (norm2 x * norm2 y) eps"

definition cos_similarity :: "mat \<Rightarrow> mat \<Rightarrow> vec" where
  \<comment> \<open>\<open>nn.CosineSimilarity()\<close> with its defaults \<open>dim=1\<close> and \<open>eps=1e-8\<close>: the rows of the
      two arguments are broadcast against each other and compared\<close>
  "cos_similarity X Y = bcast cosine X Y"

subsection \<open>Content addressing\<close>

text \<open>
  The methods \<^verbatim>\<open>write_addressing_\<close>, \<^verbatim>\<open>read_addressing_\<close>, \<^verbatim>\<open>get_allocation_\<close> and
  \<^verbatim>\<open>get_read_weight_\<close> of the source keep their names without the final underscore,
  which a constant name cannot end in.
\<close>

definition write_addressing :: "mat \<Rightarrow> mat \<Rightarrow> state \<Rightarrow> tensor3" where
  "write_addressing key strength s =
     (let key = map (\<lambda>k. [k]) key
      in map (\<lambda>i. softmax_dim0
                     (mul2 [cos_similarity (key ! i) (memory s ! i)] [strength ! i]))
           [0..<batch_size s])"

definition read_addressing :: "tensor3 \<Rightarrow> tensor3 \<Rightarrow> state \<Rightarrow> tensor3" where
  "read_addressing key strength s =
     (let key = map (map (\<lambda>k. [k])) key
      in map (\<lambda>i.
                let batch_key = key ! i;
                    batch_weight = strength ! i;
                    similarities =
                      map (\<lambda>j. softmax (cos_similarity (batch_key ! j) (memory s ! i)))
                        [0..<num_read_heads s]
                in mul2 similarities batch_weight)
           [0..<batch_size s])"

subsection \<open>Allocation weighting\<close>

text \<open>
  \<^verbatim>\<open>get_allocation_\<close> sorts the usage and keeps the permutation in \<open>idx\<close>, of which only
  the shape is read afterwards: its loop runs over the columns \<open>0, ..., N - 1\<close> of the usage
  tensor itself. Every operation of the loop body is elementwise over the leading
  dimensions (B, 1), so the loop is the following recursion along each usage row, with
  \<open>multiply\<close> the running product that starts at 1.
\<close>

fun allocation_loop :: "real \<Rightarrow> vec \<Rightarrow> vec" where
  "allocation_loop multiply [] = []"
| "allocation_loop multiply (u # us) =
     ((1 - u) * multiply) # allocation_loop (multiply * u) us"

definition get_allocation :: "state \<Rightarrow> tensor3 \<times> state" where
  "get_allocation s =
     (let a = map (map (allocation_loop 1)) (usage s)
      in (a, s\<lparr>allocation := a\<rparr>))"

text \<open>
  The allocation weighting in the words of the specification, for one usage row: sort
  the rows by ascending usage, walk the sorted permutation with the running product, and
  map the weights back to the original row order.
\<close>

definition allocation_sorted_spec :: "vec \<Rightarrow> vec" where
  "allocation_sorted_spec u =
     (let idx = sort_key (\<lambda>i. u ! i) [0..<length u];
          sorted_weights = allocation_loop 1 (map (\<lambda>i. u ! i) idx)
      in map (\<lambda>row. the (map_of (zip idx sorted_weights) row)) [0..<length u])"

subsection \<open>Read weighting\<close>

definition get_read_weight :: "interface \<Rightarrow> state \<Rightarrow> error + tensor3 \<times> state" where
  "get_read_weight iface s =
     (let transpose_temporal_link = transpose12 (temporal_link s);
          forward_weights = bmm (read_weights s) transpose_temporal_link;
          backward_weights = bmm (read_weights s) (temporal_link s);
          content_weights = read_addressing (read_keys iface) (read_strength iface) s;
          forward_modes = select2_unsqueeze 0 (read_modes iface);
          backward_modes = select2_unsqueeze 1 (read_modes iface);
          content_modes = select2_unsqueeze 2 (read_modes iface)
      in case set_attribute ''read_weights'' s
                (s\<lparr>read_weights :=
                     add3 (add3 (mul3 forward_weights forward_modes)
                                (mul3 backward_weights backward_modes))
                          (mul3 content_weights content_modes)\<rparr>) of
           Inl e \<Rightarrow> Inl e
         | Inr s' \<Rightarrow> Inr (read_weights s', s'))"

subsection \<open>One read and write cycle\<close>

definition write_weights_of :: "interface \<Rightarrow> tensor3 \<Rightarrow> tensor3 \<Rightarrow> tensor3" where
  "write_weights_of iface allocation_weight write_content_address =
     (let write_weights =
            add3 (mul3 (allocation_gate iface) (sub3 allocation_weight write_content_address))
                 write_content_address
      in mul3 write_weights (write_gate iface))"

definition retention_of :: "tensor3 \<Rightarrow> tensor3 \<Rightarrow> nat \<Rightarrow> nat \<Rightarrow> nat \<Rightarrow> tensor3" where
  \<comment> \<open>the loop over the read heads that builds \<open>retention_vector\<close>\<close>
  "retention_of gates old_read_weights batch num_cells heads =
     foldl (\<lambda>retention_vector i.
              mul3 retention_vector
                (map (\<lambda>v. [v])
                   (rsub2 1 (mul2 (select1 i gates) (select1 i old_read_weights)))))
       (ones3 batch 1 num_cells) [0..<heads]"

text \<open>
  \<open>forward\<close> updates the memory in place and binds the temporal link, the precedence, the
  usage and (in \<^verbatim>\<open>get_read_weight_\<close>) the read weights to new tensors. Each binding is
  refused when the name is a registered parameter; the step then ends with the error, and
  the updates it has made by then are not kept in its value. On a module as the
  constructor leaves it all six names are registered, and no step runs to its end.
\<close>

definition forward :: "interface \<Rightarrow> state \<Rightarrow> error + tensor3 \<times> state" where
  "forward iface s0 =
     (case get_read_weight iface s0 of
        Inl e \<Rightarrow> Inl e
      | Inr (read_weights_new, s1) \<Rightarrow>
          (let read_result = bmm read_weights_new (memory s1);
               (allocation_weight, s2) = get_allocation s1;
               write_content_address =
                 write_addressing (write_key iface) (write_strength iface) s2;
               write_weights = write_weights_of iface allocation_weight write_content_address;
               transposed_write_weights = transpose12 write_weights;
               s3 = s2\<lparr>memory :=
                      mul3 (memory s2)
                        (rsub3 1 (bmm transposed_write_weights (erase_vector iface)))\<rparr>;
               s4 = s3\<lparr>memory :=
                      add3 (memory s3) (bmm transposed_write_weights (write_vector iface))\<rparr>;
               num_cells = fst (memory_size s4);
               grid_sum = add3 (repeat_dim2 num_cells transposed_write_weights)
                               (repeat_dim1 num_cells write_weights);
               grid_subtract = rsub3 1 grid_sum
           in case set_attribute ''temporal_link'' s4
                     (s4\<lparr>temporal_link :=
                           add3 (mul3 grid_subtract (temporal_link s4))
                                (bmm transposed_write_weights (precedence s4))\<rparr>) of
                Inl e \<Rightarrow> Inl e
              | Inr s5 \<Rightarrow>
                  (case set_attribute ''precedence'' s5
                          (s5\<lparr>precedence :=
                                add3 (scale3 (1 - sum3 write_weights) (precedence s5))
                                     write_weights\<rparr>) of
                     Inl e \<Rightarrow> Inl e
                   | Inr s6 \<Rightarrow>
                       (let old_read_weights = read_weights s6;
                            retention_vector =
                              retention_of (free_gates iface) old_read_weights (batch_size s6)
                                num_cells (num_read_heads s6);
                            old_usage = usage s6
                        in case set_attribute ''usage'' s6
                                  (s6\<lparr>usage :=
                                        mul3 (sub3 (add3 old_usage write_weights)
                                                   (mul3 old_usage write_weights))
                                             retention_vector\<rparr>) of
                             Inl e \<Rightarrow> Inl e
                           | Inr s7 \<Rightarrow> Inr (read_result, s7)))))"

subsection \<open>Shapes and ranges\<close>






definition all3 :: "(real \<Rightarrow> bool) \<Rightarrow> tensor3 \<Rightarrow> bool" where
  "all3 P T = list_all (list_all (list_all P)) T"


definition unit_range :: "real \<Rightarrow> bool" where
  "unit_range x \<longleftrightarrow> 0 \<le> x \<and> x \<le> 1"



subsection \<open>Concrete states and interfaces\<close>

text \<open>
  A module with one batch element, one row, one column and one read head, whose tensors
  have been replaced by plain zero tensors of the documented shapes, so that no name is
  registered any more.
\<close>

definition zero_state :: state where
  "zero_state =
     \<lparr>memory_size = (1, 1), num_read_heads = 1, batch_size = 1,
      memory = [[[0]]], temporal_link = [[[0]]], usage = [[[0]]],
      allocation = [[[0]]], precedence = [[[0]]], read_weights = [[[0]]],
      parameters = []\<rparr>"

text \<open>
  An interface for that module: allocation gate 1, content read mode 1, read strength 1,
  zero keys, and the given write gate, write vector entry and free gate.
\<close>

definition unit_interface :: "real \<Rightarrow> real \<Rightarrow> real \<Rightarrow> interface" where
  "unit_interface wg wv fg =
     \<lparr>write_key = [[0]], write_strength = [[1]],
      allocation_gate = [[[1]]], write_gate = [[[wg]]],
      erase_vector = [[[0]]], write_vector = [[[wv]]],
      read_keys = [[[0]]], read_strength = [[[1]]],
      read_modes = [[[0, 0, 1]]], free_gates = [[[fg]]]\<rparr>"

text \<open>The state that \<open>forward (unit_interface (1/2) 0 0)\<close> reaches from \<open>zero_state\<close>.\<close>

definition half_state :: state where
  "half_state =
     \<lparr>memory_size = (1, 1), num_read_heads = 1, batch_size = 1,
      memory = [[[0]]], temporal_link = [[[0]]], usage = [[[1/2]]],
      allocation = [[[1]]], precedence = [[[1/2]]], read_weights = [[[1]]],
      parameters = []\<rparr>"

text \<open>
  A constructed module with one batch element and two rows, whose memory and usage have
  been set; the second row is less used than the first.
\<close>

definition two_row_state :: state where
  "two_row_state =
     \<lparr>memory_size = (2, 1), num_read_heads = 1, batch_size = 1,
      memory = [[[1], [1]]], temporal_link = [[[0, 0], [0, 0]]], usage = [[[1/2, 1/4]]],
      allocation = [[[0, 0]]], precedence = [[[0, 0]]], read_weights = [[[0, 0]]],
      parameters = module_parameters\<rparr>"







subsection \<open>Tabulated tensors\<close>

text \<open>
  For the proofs, a tensor of known shape is written as the table of its entries.
\<close>

definition tab :: "nat \<Rightarrow> (nat \<Rightarrow> 'a) \<Rightarrow> 'a list" where
  "tab n f = map f [0..<n]"

definition tab3 :: "nat \<Rightarrow> nat \<Rightarrow> nat \<Rightarrow> (nat \<Rightarrow> nat \<Rightarrow> nat \<Rightarrow> 'a) \<Rightarrow> 'a list list list" where
  "tab3 a b c F = tab a (\<lambda>x. tab b (\<lambda>y. tab c (F x y)))"

text \<open>
  The write weights of a step: the value of the local variable \<open>write_weights\<close> of
  \<open>forward\<close>, as a function of the state the step starts from.
\<close>

definition step_write_weights :: "interface \<Rightarrow> state \<Rightarrow> tensor3" where
  "step_write_weights iface s =
     write_weights_of iface (fst (get_allocation s))
       (write_addressing (write_key iface) (write_strength iface) s)"

text \<open>
  The read weights of a step: the tensor that \<^verbatim>\<open>get_read_weight_\<close> computes from the state
  the step starts from and then tries to store.
\<close>

definition read_weight_blend :: "interface \<Rightarrow> state \<Rightarrow> tensor3" where
  "read_weight_blend iface s =
     add3 (add3 (mul3 (bmm (read_weights s) (transpose12 (temporal_link s)))
                      (select2_unsqueeze 0 (read_modes iface)))
                (mul3 (bmm (read_weights s) (temporal_link s))
                      (select2_unsqueeze 1 (read_modes iface))))
          (mul3 (read_addressing (read_keys iface) (read_strength iface) s)
                (select2_unsqueeze 2 (read_modes iface)))"

text \<open>
  A step runs to its end when none of the four names it binds anew is registered; its
  value is then the following pair of read result and new state.
\<close>

definition completes :: "state \<Rightarrow> bool" where
  "completes s \<longleftrightarrow>
     ''read_weights'' \<notin> set (parameters s) \<and> ''temporal_link'' \<notin> set (parameters s) \<and>
     ''precedence'' \<notin> set (parameters s) \<and> ''usage'' \<notin> set (parameters s)"

definition step_values :: "interface \<Rightarrow> state \<Rightarrow> tensor3 \<times> state" where
  "step_values iface s =
     (bmm (read_weight_blend iface s) (memory s),
      s\<lparr>read_weights := read_weight_blend iface s,
        allocation := fst (get_allocation s),
        memory :=
          add3 (mul3 (memory s)
                  (rsub3 1 (bmm (transpose12 (step_write_weights iface s)) (erase_vector iface))))
               (bmm (transpose12 (step_write_weights iface s)) (write_vector iface)),
        temporal_link :=
          add3 (mul3 (rsub3 1 (add3 (repeat_dim2 (fst (memory_size s))
                                       (transpose12 (step_write_weights iface s)))
                                    (repeat_dim1 (fst (memory_size s)) (step_write_weights iface s))))
                     (temporal_link s))
               (bmm (transpose12 (step_write_weights iface s)) (precedence s)),
        precedence :=
          add3 (scale3 (1 - sum3 (step_write_weights iface s)) (precedence s))
               (step_write_weights iface s),
        usage :=
          mul3 (sub3 (add3 (usage s) (step_write_weights iface s))
                     (mul3 (usage s) (step_write_weights iface s)))
               (retention_of (free_gates iface) (read_weight_blend iface s) (batch_size s)
                  (fst (memory_size s)) (num_read_heads s))\<rparr>)"

section \<open>Lemmas\<close>

subsection \<open>Evaluation on concrete tensors\<close>

lemmas tensor_defs = bcast_def add3_def sub3_def mul3_def mul2_def rsub3_def rsub2_def
  scale3_def sum3_def dot_def matmul_def bmm_def transpose12_def repeat_dim1_def
  repeat_dim2_def select1_def select2_unsqueeze_def ones3_def softmax_def softmax_dim0_def
  eps_def norm2_def cosine_def cos_similarity_def

lemmas method_defs = write_addressing_def read_addressing_def get_allocation_def
  read_weight_blend_def write_weights_of_def retention_of_def step_write_weights_def Let_def


subsection \<open>The state threaded through \<open>forward\<close>\<close>

lemma get_read_weight_eq:
  "get_read_weight iface s =
     (if ''read_weights'' \<in> set (parameters s) then Inl TypeError
      else Inr (read_weight_blend iface s, s\<lparr>read_weights := read_weight_blend iface s\<rparr>))"
  by (simp add: get_read_weight_def read_weight_blend_def set_attribute_def Let_def)

lemma get_allocation_frame [simp]:
  "fst (get_allocation (s\<lparr>read_weights := x\<rparr>)) = fst (get_allocation s)"
  by (simp add: get_allocation_def Let_def)

lemma write_addressing_frame [simp]:
  "write_addressing k st (s\<lparr>read_weights := x, allocation := y\<rparr>) = write_addressing k st s"
  by (simp add: write_addressing_def)

lemma get_allocation_pair:
  "get_allocation (s\<lparr>read_weights := x\<rparr>) =
     (fst (get_allocation s), s\<lparr>read_weights := x, allocation := fst (get_allocation s)\<rparr>)"
  by (simp add: get_allocation_def Let_def)

lemma forward_unfold:
  "forward iface s = (if completes s then Inr (step_values iface s) else Inl TypeError)"
proof (cases "''read_weights'' \<in> set (parameters s)")
  case True
  then show ?thesis
    by (simp add: forward_def get_read_weight_eq completes_def)
next
  case False
  then show ?thesis
    unfolding forward_def get_read_weight_eq
    by (simp add: get_allocation_pair Let_def set_attribute_def completes_def step_values_def
        step_write_weights_def)
qed

lemma forward_registered:
  "''read_weights'' \<in> set (parameters s) \<Longrightarrow> forward iface s = Inl TypeError"
  by (simp add: forward_unfold completes_def)

lemma forward_Inr:
  "forward iface s = Inr (r, s') \<Longrightarrow> completes s \<and> step_values iface s = (r, s')"
  by (simp add: forward_unfold split: if_splits)



subsection \<open>Tables\<close>

lemma length_tab [simp]: "length (tab n f) = n"
  by (simp add: tab_def)

lemma nth_tab [simp]: "i < n \<Longrightarrow> tab n f ! i = f i"
  by (simp add: tab_def)



lemma map_tab [simp]: "map g (tab n f) = tab n (\<lambda>i. g (f i))"
  by (simp add: tab_def)


lemma singleton_tab: "[x] = tab (Suc 0) (\<lambda>_. x)"
  by (simp add: tab_def)


lemma list_all_tab [simp]: "list_all P (tab n f) \<longleftrightarrow> (\<forall>i<n. P (f i))"
  by (auto simp: tab_def list_all_iff)


lemma sum_list_tab1 [simp]: "sum_list (tab (Suc 0) g) = (g 0 :: real)"
  by (simp add: tab_def)








lemma bcast_tab [simp]: "bcast f (tab n g) (tab n h) = tab n (\<lambda>i. f (g i) (h i))"
  by (simp add: bcast_def tab_def map2_map_map)

lemma bcast_tab1_left [simp]: "bcast f (tab (Suc 0) g) (tab n h) = tab n (\<lambda>i. f (g 0) (h i))"
  by (auto simp: bcast_def tab_def)

lemma bcast_tab1_right [simp]: "bcast f (tab n g) (tab (Suc 0) h) = tab n (\<lambda>i. f (g i) (h 0))"
  by (auto simp: bcast_def tab_def)

lemma map2_tab [simp]: "map2 f (tab n g) (tab n h) = tab n (\<lambda>i. f (g i) (h i))"
  by (simp add: tab_def map2_map_map)


lemma concat_replicate_tab1: "concat (replicate n (tab (Suc 0) f)) = tab n (\<lambda>_. f 0)"
proof -
  have "concat (replicate n [x]) = replicate n x" for x :: 'a
    by (induction n) simp_all
  then show ?thesis
    by (simp add: tab_def map_replicate_trivial)
qed


lemma tab3_nth [simp]: "b < a \<Longrightarrow> tab3 a n m F ! b = tab n (\<lambda>i. tab m (F b i))"
  by (simp add: tab3_def)




subsection \<open>Tensor operations on tables\<close>




lemma add3_tab3 [simp]:
  "add3 (tab3 a b c F) (tab3 a b c G) = tab3 a b c (\<lambda>x y z. F x y z + G x y z)"
  by (simp add: add3_def tab3_def)

lemma sub3_tab3 [simp]:
  "sub3 (tab3 a b c F) (tab3 a b c G) = tab3 a b c (\<lambda>x y z. F x y z - G x y z)"
  by (simp add: sub3_def tab3_def)

lemma mul3_tab3 [simp]:
  "mul3 (tab3 a b c F) (tab3 a b c G) = tab3 a b c (\<lambda>x y z. F x y z * G x y z)"
  by (simp add: mul3_def tab3_def)

lemma mul3_tab3_last1 [simp]:
  "mul3 (tab3 a b c F) (tab3 a b (Suc 0) G) = tab3 a b c (\<lambda>x y z. F x y z * G x y 0)"
  by (simp add: mul3_def tab3_def)

lemma mul3_tab3_gate [simp]:
  "mul3 (tab3 a (Suc 0) (Suc 0) G) (tab3 a (Suc 0) c F) =
   tab3 a (Suc 0) c (\<lambda>x y z. G x y 0 * F x y z)"
  by (simp add: mul3_def tab3_def)

lemma rsub3_tab3 [simp]: "rsub3 c (tab3 a b d F) = tab3 a b d (\<lambda>x y z. c - F x y z)"
  by (simp add: rsub3_def tab3_def)

lemma scale3_tab3 [simp]: "scale3 c (tab3 a b d F) = tab3 a b d (\<lambda>x y z. c * F x y z)"
  by (simp add: scale3_def tab3_def)

lemma repeat_dim1_tab3 [simp]:
  "repeat_dim1 n (tab3 a (Suc 0) c F) = tab3 a n c (\<lambda>x y z. F x 0 z)"
  by (simp add: repeat_dim1_def tab3_def concat_replicate_tab1)

lemma repeat_dim2_tab3 [simp]:
  "repeat_dim2 n (tab3 a b (Suc 0) F) = tab3 a b n (\<lambda>x y z. F x y 0)"
  by (simp add: repeat_dim2_def tab3_def concat_replicate_tab1)

lemma select2_unsqueeze_tab3 [simp]:
  "k < c \<Longrightarrow> select2_unsqueeze k (tab3 a b c F) = tab3 a b (Suc 0) (\<lambda>x y z. F x y k)"
  by (simp add: select2_unsqueeze_def tab3_def singleton_tab)






subsection \<open>The methods on tables\<close>



lemma length_allocation_loop [simp]: "length (allocation_loop m us) = length us"
  by (induction us arbitrary: m) simp_all






subsection \<open>The allocation loop\<close>

lemma allocation_loop_sum: "sum_list (allocation_loop m us) = m * (1 - prod_list us)"
proof (induction us arbitrary: m)
  case Nil
  then show ?case by simp
next
  case (Cons u us)
  have "sum_list (allocation_loop m (u # us)) = (1 - u) * m + (m * u) * (1 - prod_list us)"
    by (simp add: Cons.IH)
  also have "\<dots> = m * (1 - prod_list (u # us))"
    by (simp add: algebra_simps)
  finally show ?case .
qed

lemma allocation_loop_range:
  assumes "0 \<le> m" and "m \<le> 1" and "\<forall>u\<in>set us. 0 \<le> u \<and> u \<le> 1"
  shows "\<forall>a\<in>set (allocation_loop m us). 0 \<le> a \<and> a \<le> 1"
  using assms
proof (induction us arbitrary: m)
  case Nil
  show ?case by simp
next
  case (Cons u us)
  have u: "0 \<le> u" "u \<le> 1"
    using Cons.prems(3) by simp_all
  have us: "\<forall>x\<in>set us. 0 \<le> x \<and> x \<le> 1"
    using Cons.prems(3) by simp
  have mu: "0 \<le> m * u" "m * u \<le> 1"
    using Cons.prems(1,2) u by (simp_all add: mult_le_one)
  have rest: "\<forall>a\<in>set (allocation_loop (m * u) us). 0 \<le> a \<and> a \<le> 1"
    by (rule Cons.IH[OF mu us])
  have "0 \<le> 1 - u" "1 - u \<le> 1"
    using u by simp_all
  then have "0 \<le> (1 - u) * m" "(1 - u) * m \<le> 1"
    using Cons.prems(1,2) by (simp_all add: mult_le_one)
  with rest show ?case by simp
qed

lemma prod_list_nonneg_real: "\<forall>u\<in>set us. 0 \<le> u \<Longrightarrow> 0 \<le> (prod_list us :: real)"
  by (induction us) simp_all

subsection \<open>A step on well-shaped tensors\<close>



















subsection \<open>Ranges\<close>









subsection \<open>Steps of the concrete modules\<close>


lemma zero_state_read_weight:
  "read_weight_blend (unit_interface wg wv fg) zero_state = [[[1]]]"
  by (simp add: tensor_defs method_defs unit_interface_def zero_state_def)

lemma zero_state_write_weights:
  "step_write_weights (unit_interface wg wv fg) zero_state = [[[wg]]]"
  by (simp add: tensor_defs method_defs unit_interface_def zero_state_def)



lemma half_state_reached:
  "forward (unit_interface (1/2) 0 0) zero_state = Inr ([[[0]]], half_state)"
  by (simp add: forward_unfold step_values_def zero_state_read_weight zero_state_write_weights,
      simp add: completes_def zero_state_def)
     (simp add: tensor_defs method_defs unit_interface_def zero_state_def half_state_def)










section \<open>The claims\<close>

text \<open>
  C1 (content addressing sums to 1 over the rows for each key). The code does not do this.
  \<^verbatim>\<open>write_addressing_\<close> applies the softmax along dimension 0 of a (1, N) tensor, a
  dimension of size 1, so every row receives weight 1 and the weights of N rows sum to N;
  \<^verbatim>\<open>read_addressing_\<close> multiplies by the strength after the softmax, so the weights of a
  head sum to its strength. With two equal memory rows, write strength 1 and read
  strength 2, both sums are 2.
\<close>

theorem content_addressing_sum_two:
  "sum_list (write_addressing [[1]] [[1]] two_row_state ! 0 ! 0) = 2 \<and>
   sum_list (read_addressing [[[1]]] [[[2]]] two_row_state ! 0 ! 0) = 2"
  by (simp add: tensor_defs method_defs two_row_state_def)

text \<open>
  C2 (the allocation walk follows the rows sorted by ascending usage and maps the result
  back). The code sorts but never reads the permutation: for the usage row (1/2, 1/4) it
  returns (1/2, 3/8), the walk in the original row order, where the sorted walk of the
  specification gives (1/8, 3/4).
\<close>

theorem get_allocation_walks_unsorted:
  "fst (get_allocation two_row_state) = [[[1/2, 3/8]]] \<and>
   map (map allocation_sorted_spec) (usage two_row_state) = [[[1/8, 3/4]]]"
  by (simp add: get_allocation_def allocation_sorted_spec_def two_row_state_def Let_def)

text \<open>
  C3 (a row with lower usage never receives less allocation weight than a row with higher
  usage). On the usage row (1/2, 1/4) the second row is the less used one and receives the
  strictly smaller weight 3/8 < 1/2.
\<close>

theorem get_allocation_not_monotone:
  "usage two_row_state ! 0 ! 0 ! 1 < usage two_row_state ! 0 ! 0 ! 0 \<and>
   fst (get_allocation two_row_state) ! 0 ! 0 ! 1 < fst (get_allocation two_row_state) ! 0 ! 0 ! 0"
  by (simp add: get_allocation_def two_row_state_def Let_def)















text \<open>
  C10 (for usage entries in [0, 1], every allocation weight lies in [0, 1] and the weights
  of a batch element sum to 1 minus the product of its usage entries, hence to at most 1).
\<close>

theorem get_allocation_range_and_sum:
  assumes "all3 unit_range (usage s)" and "b < length (usage s)" and "y < length (usage s ! b)"
  shows "list_all unit_range (fst (get_allocation s) ! b ! y) \<and>
         sum_list (fst (get_allocation s) ! b ! y) = 1 - prod_list (usage s ! b ! y) \<and>
         sum_list (fst (get_allocation s) ! b ! y) \<le> 1"
proof -
  let ?u = "usage s ! b ! y"
  have a: "fst (get_allocation s) ! b ! y = allocation_loop 1 ?u"
    using assms(2,3) by (simp add: get_allocation_def Let_def)
  have u: "\<forall>x\<in>set ?u. 0 \<le> x \<and> x \<le> 1"
    using assms by (auto simp: all3_def unit_range_def list_all_iff dest: nth_mem)
  then have "0 \<le> prod_list ?u"
    by (intro prod_list_nonneg_real) simp
  moreover have "\<forall>x\<in>set (allocation_loop 1 ?u). 0 \<le> x \<and> x \<le> 1"
    using u by (intro allocation_loop_range) simp_all
  ultimately show ?thesis
    unfolding a by (simp add: allocation_loop_sum list_all_iff unit_range_def)
qed

theorem get_allocation_range_and_sum_witness:
  "all3 unit_range (usage two_row_state) \<and> 0 < length (usage two_row_state) \<and>
   0 < length (usage two_row_state ! 0) \<and>
   list_all unit_range (fst (get_allocation two_row_state) ! 0 ! 0) \<and>
   sum_list (fst (get_allocation two_row_state) ! 0 ! 0) = 1 - prod_list (usage two_row_state ! 0 ! 0) \<and>
   sum_list (fst (get_allocation two_row_state) ! 0 ! 0) \<le> 1"
proof -
  have h: "all3 unit_range (usage two_row_state)" "0 < length (usage two_row_state)"
    "0 < length (usage two_row_state ! 0)"
    by (simp_all add: two_row_state_def all3_def unit_range_def)
  show ?thesis
    using h get_allocation_range_and_sum[OF h] by simp
qed

end
